theory Spec2Isabelle
  imports Complex_Main
begin

section \<open>Python values and exceptions\<close>

text \<open>
  The program is \<^verbatim>\<open>sentiment1.py\<close>. Its two scorers, the file parsers, the chart and
  the dialogs are third-party libraries; they enter the model as parameters. A library
  call that may raise returns a sum whose left side is \<open>str(e)\<close> of the exception.
  Python floats are modelled by the reals they denote: the program only compares and
  formats them. Strings are lists of 8-bit characters.
\<close>

datatype py_exn =
    AttributeError
  | KeyError
  | TypeError
  | ValueError
  | Raised string  \<comment> \<open>an exception raised inside a library or OS call, with its \<open>str(e)\<close>\<close>

datatype pyval = PyNone | PyFloat real | PyStr string

type_synonym scores = "(string \<times> real) list"
  \<comment> \<open>a dict from key to score, in the dict's iteration order\<close>

text \<open>What \<open>self.vader_scores\<close> can hold: \<open>None\<close>, the scores dict, or the pair
  \<open>(None, str(e))\<close> that \<open>analyze_sentiment_vader\<close> returns from its handler.\<close>

datatype vader_val = VNone | VDict scores | VTuple string

definition nl :: string where
  "nl = [CHR 0x0A]"

section \<open>The scorers (lines 11--27)\<close>

record libs =
  polarity_scores :: "string \<Rightarrow> string + scores"
    \<comment> \<open>\<open>analyzer.polarity_scores(text)\<close>\<close>
  textblob_sentiment :: "string \<Rightarrow> string + real \<times> real"
    \<comment> \<open>\<open>TextBlob(text).sentiment\<close>: polarity and subjectivity\<close>
  format_scores :: "scores \<Rightarrow> string"
    \<comment> \<open>\<open>str\<close> of the scores dict\<close>
  format_4f :: "real \<Rightarrow> string"
    \<comment> \<open>the format \<open>:.4f\<close>\<close>
  draw_bars :: "pyval list \<Rightarrow> string option"
    \<comment> \<open>\<open>ax.bar\<close> and the drawing calls after it; \<open>Some m\<close> when they raise\<close>

definition analyze_sentiment_vader :: "libs \<Rightarrow> string \<Rightarrow> vader_val" where
  "analyze_sentiment_vader L text =
     (case polarity_scores L text of
        Inr sc \<Rightarrow> VDict sc
      | Inl m \<Rightarrow> VTuple m)"

definition analyze_sentiment_textblob :: "libs \<Rightarrow> string \<Rightarrow> real option \<times> pyval" where
  "analyze_sentiment_textblob L text =
     (case textblob_sentiment L text of
        Inr (p, sb) \<Rightarrow> (Some p, PyFloat sb)
      | Inl m \<Rightarrow> (None, PyStr m))"

section \<open>The file extractor (lines 30--43)\<close>

record ('df, 'doc, 'page) files =
  read_text :: "string \<Rightarrow> string + string"
    \<comment> \<open>\<open>open(path, 'r', encoding='utf-8')\<close> and \<open>read()\<close>\<close>
  read_csv :: "string \<Rightarrow> string + 'df"
  to_string :: "'df \<Rightarrow> string"
  pdf_open :: "string \<Rightarrow> string + 'doc"
  page_count :: "'doc \<Rightarrow> nat"
  load_page :: "'doc \<Rightarrow> nat \<Rightarrow> string + 'page"
  get_text :: "'page \<Rightarrow> string + string"

text \<open>The loop over the page numbers: \<open>content += page.get_text()\<close>.\<close>

fun pdf_pages ::
  "('df, 'doc, 'page) files \<Rightarrow> 'doc \<Rightarrow> nat list \<Rightarrow> string \<Rightarrow> py_exn + string" where
  "pdf_pages F doc [] content = Inr content"
| "pdf_pages F doc (page_num # rest) content =
     (case load_page F doc page_num of
        Inl m \<Rightarrow> Inl (Raised m)
      | Inr page \<Rightarrow>
          (case get_text F page of
             Inl m \<Rightarrow> Inl (Raised m)
           | Inr t \<Rightarrow> pdf_pages F doc rest (content @ t)))"

definition process_file ::
  "('df, 'doc, 'page) files \<Rightarrow> string \<Rightarrow> string \<Rightarrow> py_exn + string" where
  "process_file F file_path file_type =
     (if file_type = ''txt'' then
        (case read_text F file_path of
           Inl m \<Rightarrow> Inl (Raised m)
         | Inr content \<Rightarrow> Inr content)
      else if file_type = ''csv'' then
        (case read_csv F file_path of
           Inl m \<Rightarrow> Inl (Raised m)
         | Inr df \<Rightarrow> Inr (to_string F df))
      else if file_type = ''pdf'' then
        (case pdf_open F file_path of
           Inl m \<Rightarrow> Inl (Raised m)
         | Inr pdf_document \<Rightarrow>
             pdf_pages F pdf_document [0 ..< page_count F pdf_document] '''')
      else Inr '''')"

section \<open>Python helpers used by the window\<close>

text \<open>\<open>str.isspace\<close> on the code points below 256, and \<open>str.strip()\<close>.\<close>

definition py_isspace :: "char \<Rightarrow> bool" where
  "py_isspace c =
     (let n = (of_char c :: nat)
      in (9 \<le> n \<and> n \<le> 13) \<or> (28 \<le> n \<and> n \<le> 32) \<or> n = 133 \<or> n = 160)"

definition strip :: "string \<Rightarrow> string" where
  "strip s = rev (dropWhile py_isspace (rev (dropWhile py_isspace s)))"

text \<open>\<open>s.split('.')\<close>; the result is never empty, so \<open>[-1]\<close> is its last element.\<close>

fun split_dot :: "string \<Rightarrow> string list" where
  "split_dot [] = [[]]"
| "split_dot (c # cs) =
     (if c = CHR ''.'' then [] # split_dot cs
      else (case split_dot cs of
              [] \<Rightarrow> [[c]]
            | part # parts \<Rightarrow> (c # part) # parts))"

definition file_type_of :: "string \<Rightarrow> string" where
  "file_type_of file_path = last (split_dot file_path)"

text \<open>\<open>d.get(k)\<close>, and the comparison \<open>a > b\<close> of two values that \<open>max\<close> makes.\<close>

definition dict_get :: "scores \<Rightarrow> string \<Rightarrow> real option" where
  "dict_get d k = map_of d k"

fun py_gt :: "real option \<Rightarrow> real option \<Rightarrow> py_exn + bool" where
  "py_gt (Some a) (Some b) = Inr (b < a)"
| "py_gt _ _ = Inl TypeError"

text \<open>\<open>max(iterable, key=f)\<close>: the first item is the candidate, and a later item
  replaces it only when its key is strictly greater.\<close>

fun max_loop :: "('a \<Rightarrow> real option) \<Rightarrow> 'a \<Rightarrow> 'a list \<Rightarrow> py_exn + 'a" where
  "max_loop f best [] = Inr best"
| "max_loop f best (x # xs) =
     (case py_gt (f x) (f best) of
        Inl e \<Rightarrow> Inl e
      | Inr b \<Rightarrow> (if b then max_loop f x xs else max_loop f best xs))"

definition py_max :: "('a \<Rightarrow> real option) \<Rightarrow> 'a list \<Rightarrow> py_exn + 'a" where
  "py_max f xs = (case xs of [] \<Rightarrow> Inl ValueError | x # rest \<Rightarrow> max_loop f x rest)"

section \<open>The window (lines 64--167)\<close>

record app =
  text_entry :: string
  result_label :: string
  results :: string
  vader_scores :: vader_val
  polarity :: "real option"
  subjectivity :: pyval
  file_content :: string
  chart :: "pyval list option"  \<comment> \<open>the bars on the axes, \<open>None\<close> when cleared\<close>

datatype effect =
    Warning string string       \<comment> \<open>\<open>QMessageBox.warning\<close>: title, text\<close>
  | Information string string   \<comment> \<open>\<open>QMessageBox.information\<close>: title, text\<close>
  | FileWritten string string   \<comment> \<open>path, contents\<close>

text \<open>What a handler leaves behind: the fields of the window, what the user saw and what
  was written, and the exception that left the handler, if any.\<close>

record run =
  post :: app
  effects :: "effect list"
  raised :: "py_exn option"

definition init :: app where
  "init = \<lparr>text_entry = '''', result_label = '''', results = '''', vader_scores = VNone,
            polarity = None, subjectivity = PyNone, file_content = '''', chart = None\<rparr>"

definition truthy :: "vader_val \<Rightarrow> bool" where
  "truthy v = (case v of VNone \<Rightarrow> False | VDict d \<Rightarrow> d \<noteq> [] | VTuple m \<Rightarrow> True)"

text \<open>Line 118: \<open>max(self.vader_scores, key=self.vader_scores.get)\<close>. A tuple and
  \<open>None\<close> have no attribute \<open>get\<close>.\<close>

definition overall_sentiment :: "vader_val \<Rightarrow> py_exn + string" where
  "overall_sentiment v =
     (case v of
        VDict d \<Rightarrow> py_max (dict_get d) (map fst d)
      | VTuple m \<Rightarrow> Inl AttributeError
      | VNone \<Rightarrow> Inl AttributeError)"

text \<open>\<open>{self.vader_scores}\<close> in the f-string of line 120, which is reached with a dict
  only: line 118 raises for the other two values.\<close>

definition show_vader :: "libs \<Rightarrow> vader_val \<Rightarrow> string" where
  "show_vader L v = (case v of VDict d \<Rightarrow> format_scores L d | VTuple m \<Rightarrow> m | VNone \<Rightarrow> ''None'')"

text \<open>Lines 117--122.\<close>

definition vader_report :: "libs \<Rightarrow> vader_val \<Rightarrow> py_exn + string" where
  "vader_report L v =
     (if truthy v then
        (case overall_sentiment v of
           Inl e \<Rightarrow> Inl e
         | Inr k \<Rightarrow>
             Inr (''Overall Sentiment (VADER): '' @ k @ nl @ ''Scores: '' @ show_vader L v @ nl))
      else Inr (''Error analyzing sentiment with VADER.'' @ nl))"

text \<open>Line 127.\<close>

definition textblob_label :: "real \<Rightarrow> string" where
  "textblob_label p = (if p > 0 then ''Positive'' else if p < 0 then ''Negative'' else ''Neutral'')"

text \<open>Lines 126--131. The format \<open>:.4f\<close> of a string raises \<open>ValueError\<close>, of
  \<open>None\<close> \<open>TypeError\<close>.\<close>

definition textblob_report :: "libs \<Rightarrow> real option \<Rightarrow> pyval \<Rightarrow> py_exn + string" where
  "textblob_report L pol subj =
     (case pol of
        Some p \<Rightarrow>
          (case subj of
             PyFloat sb \<Rightarrow>
               Inr (''Overall Sentiment (TextBlob): '' @ textblob_label p @ nl @
                    ''Polarity: '' @ format_4f L p @ nl @ ''Subjectivity: '' @ format_4f L sb)
           | PyStr m \<Rightarrow> Inl ValueError
           | PyNone \<Rightarrow> Inl TypeError)
      | None \<Rightarrow> Inr ''Error analyzing sentiment with TextBlob.'')"

text \<open>\<open>SentimentVisualizer.plot\<close> (lines 52--61): the subscripts come first, then the
  axes are cleared, then the bars are drawn. The result is the chart afterwards and the
  exception raised, if any.\<close>

definition subscript :: "vader_val \<Rightarrow> string \<Rightarrow> py_exn + real" where
  "subscript v k =
     (case v of
        VDict d \<Rightarrow> (case dict_get d k of Some x \<Rightarrow> Inr x | None \<Rightarrow> Inl KeyError)
      | VTuple m \<Rightarrow> Inl TypeError
      | VNone \<Rightarrow> Inl TypeError)"

definition pyval_of :: "real option \<Rightarrow> pyval" where
  "pyval_of pol = (case pol of Some p \<Rightarrow> PyFloat p | None \<Rightarrow> PyNone)"

definition plot ::
  "libs \<Rightarrow> pyval list option \<Rightarrow> vader_val \<Rightarrow> real option \<Rightarrow> pyval
     \<Rightarrow> pyval list option \<times> py_exn option" where
  "plot L old v pol subj =
     (case subscript v ''pos'' of
        Inl e \<Rightarrow> (old, Some e)
      | Inr a \<Rightarrow>
     (case subscript v ''neu'' of
        Inl e \<Rightarrow> (old, Some e)
      | Inr b \<Rightarrow>
     (case subscript v ''neg'' of
        Inl e \<Rightarrow> (old, Some e)
      | Inr c \<Rightarrow>
          (let vader_data = [PyFloat a, PyFloat b, PyFloat c, pyval_of pol, subj]
           in case draw_bars L vader_data of
                Some m \<Rightarrow> (None, Some (Raised m))
              | None \<Rightarrow> (Some vader_data, None)))))"

text \<open>Line 110: \<open>self.text_entry.toPlainText().strip() or self.file_content\<close>.\<close>

definition analysis_text :: "app \<Rightarrow> string" where
  "analysis_text s = (if strip (text_entry s) \<noteq> [] then strip (text_entry s) else file_content s)"

definition perform_analysis :: "libs \<Rightarrow> app \<Rightarrow> run" where
  "perform_analysis L s =
     (let text = analysis_text s in
      if text = [] then
        \<lparr>post = s,
         effects = [Warning ''Input Error''
                      ''Please enter some text or upload a file to analyze.''],
         raised = None\<rparr>
      else
        (let s1 = s\<lparr>vader_scores := analyze_sentiment_vader L text\<rparr> in
         case vader_report L (vader_scores s1) of
           Inl e \<Rightarrow> \<lparr>post = s1, effects = [], raised = Some e\<rparr>
         | Inr vader_text \<Rightarrow>
             (let s2 = s1\<lparr>polarity := fst (analyze_sentiment_textblob L text),
                          subjectivity := snd (analyze_sentiment_textblob L text)\<rparr> in
              case textblob_report L (polarity s2) (subjectivity s2) of
                Inl e \<Rightarrow> \<lparr>post = s2, effects = [], raised = Some e\<rparr>
              | Inr textblob_text \<Rightarrow>
                  (let result_text = vader_text @ textblob_text;
                       s3 = s2\<lparr>results := result_text, result_label := result_text\<rparr>;
                       drawn = plot L (chart s3) (vader_scores s3) (polarity s3) (subjectivity s3)
                   in \<lparr>post = s3\<lparr>chart := fst drawn\<rparr>, effects = [], raised = snd drawn\<rparr>))))"

definition clear_text :: "app \<Rightarrow> app" where
  "clear_text s =
     s\<lparr>text_entry := '''', result_label := '''', results := '''', vader_scores := VNone,
       polarity := None, subjectivity := PyNone, file_content := '''', chart := None\<rparr>"

text \<open>\<open>upload_file\<close>: \<open>chosen\<close> is the path the open dialog returned, empty when the
  user cancelled.\<close>

definition upload_file :: "('df, 'doc, 'page) files \<Rightarrow> string \<Rightarrow> app \<Rightarrow> run" where
  "upload_file F chosen s =
     (if chosen \<noteq> [] then
        (case process_file F chosen (file_type_of chosen) of
           Inl e \<Rightarrow> \<lparr>post = s, effects = [], raised = Some e\<rparr>
         | Inr content \<Rightarrow>
             \<lparr>post = s\<lparr>file_content := content, text_entry := content\<rparr>,
              effects = [], raised = None\<rparr>)
      else \<lparr>post = s, effects = [], raised = None\<rparr>)"

text \<open>\<open>save_results\<close>: \<open>chosen\<close> is the path the save dialog returned; \<open>write_file\<close>
  is \<open>open(path, 'w')\<close> and \<open>write\<close>, \<open>Some m\<close> when it raises.\<close>

definition save_results :: "(string \<Rightarrow> string \<Rightarrow> string option) \<Rightarrow> string \<Rightarrow> app \<Rightarrow> run" where
  "save_results write_file chosen s =
     (if results s \<noteq> [] then
        (if chosen \<noteq> [] then
           (case write_file chosen (results s) of
              Some m \<Rightarrow> \<lparr>post = s, effects = [], raised = Some (Raised m)\<rparr>
            | None \<Rightarrow>
                \<lparr>post = s,
                 effects = [FileWritten chosen (results s),
                            Information ''Save Results'' ''Results saved successfully!''],
                 raised = None\<rparr>)
         else \<lparr>post = s, effects = [], raised = None\<rparr>)
      else
        \<lparr>post = s,
         effects = [Warning ''No Results'' ''No results to save. Perform analysis first.''],
         raised = None\<rparr>)"

section \<open>Notions used in the statements\<close>

text \<open>The text of one page: \<open>load_page\<close>, then \<open>get_text\<close>.\<close>

definition page_text :: "('df, 'doc, 'page) files \<Rightarrow> 'doc \<Rightarrow> nat \<Rightarrow> string + string" where
  "page_text F doc page_num =
     (case load_page F doc page_num of Inl m \<Rightarrow> Inl m | Inr page \<Rightarrow> get_text F page)"

section \<open>Example environments\<close>

text \<open>Libraries that score every text as VADER and TextBlob score the word \<open>good\<close>, and
  that draw every chart.\<close>

definition good_scores :: scores where
  "good_scores = [(''neg'', 0), (''neu'', 0), (''pos'', 1), (''compound'', 0.4404)]"

definition good_libs :: libs where
  "good_libs =
     \<lparr>polarity_scores = (\<lambda>t. Inr good_scores),
      textblob_sentiment = (\<lambda>t. Inr (0.7, 0.6)),
      format_scores = (\<lambda>d. concat (map fst d)),
      format_4f = (\<lambda>x. if x = 0.7 then ''0.7000'' else ''0.6000''),
      draw_bars = (\<lambda>data. None)\<rparr>"

text \<open>A text on which the compound score is the largest of the four.\<close>

definition compound_scores :: scores where
  "compound_scores = [(''pos'', 0.5), (''neu'', 0.5), (''neg'', 0), (''compound'', 0.8)]"

definition compound_libs :: libs where
  "compound_libs = good_libs\<lparr>polarity_scores := (\<lambda>t. Inr compound_scores)\<rparr>"

text \<open>Libraries in which one scorer raises.\<close>

definition vader_down :: libs where
  "vader_down = good_libs\<lparr>polarity_scores := (\<lambda>t. Inl ''list index out of range'')\<rparr>"


text \<open>A file system with one PDF of two pages whose second page cannot be read; a
  document is its page count, a page its number.\<close>

definition broken_pdf :: "(unit, nat, nat) files" where
  "broken_pdf =
     \<lparr>read_text = (\<lambda>p. Inl ''No such file or directory''),
      read_csv = (\<lambda>p. Inl ''No such file or directory''),
      to_string = (\<lambda>df. []),
      pdf_open = (\<lambda>p. Inr 2),
      page_count = (\<lambda>doc. doc),
      load_page = (\<lambda>doc n. Inr n),
      get_text = (\<lambda>page. if page = 0 then Inr ''first page'' else Inl ''cannot read page'')\<rparr>"

text \<open>The window after the user typed \<open>good\<close>.\<close>

definition typed_good :: app where
  "typed_good = init\<lparr>text_entry := ''good''\<rparr>"



section \<open>The TextBlob library, from the spec\<close>




section \<open>The page loop\<close>

lemma pdf_pages_step:
  "pdf_pages F doc (n # rest) content =
     (case page_text F doc n of
        Inl m \<Rightarrow> Inl (Raised m)
      | Inr t \<Rightarrow> pdf_pages F doc rest (content @ t))"
  by (simp add: page_text_def split: sum.splits)

lemma pdf_pages_fails_at:
  assumes "page_text F doc k = Inl m"
    and "\<And>j. j \<in> set before \<Longrightarrow> \<exists>t. page_text F doc j = Inr t"
  shows "pdf_pages F doc (before @ k # rest) content = Inl (Raised m)"
  using assms
proof (induction before arbitrary: content)
  case Nil
  then show ?case by (simp only: append_Nil pdf_pages_step sum.case)
next
  case (Cons j before)
  from Cons.prems(2) [of j] obtain t where t: "page_text F doc j = Inr t" by auto
  have "pdf_pages F doc ((j # before) @ k # rest) content =
        pdf_pages F doc (before @ k # rest) (content @ t)"
    by (simp only: append_Cons pdf_pages_step t sum.case)
  also have "\<dots> = Inl (Raised m)"
    using Cons.IH [of "content @ t"] Cons.prems by simp
  finally show ?case .
qed

lemma upt_split_at: "k < n \<Longrightarrow> [0 ..< n] = [0 ..< k] @ k # [Suc k ..< n]"
  by (metis less_imp_le_nat upt_conv_Cons upt_add_eq_append le0 le_add_diff_inverse)

section \<open>Python's max over the keys of a dict\<close>

lemma max_loop_returns:
  "\<forall>x\<in>set (b # xs). \<exists>v. f x = Some v \<Longrightarrow> \<exists>m. max_loop f b xs = Inr m"
proof (induction xs arbitrary: b)
  case Nil
  show ?case by simp
next
  case (Cons x xs)
  obtain vx vb where v: "f x = Some vx" "f b = Some vb"
    using Cons.prems by auto
  have "\<exists>m. max_loop f x xs = Inr m" "\<exists>m. max_loop f b xs = Inr m"
    using Cons.prems by (auto intro!: Cons.IH)
  then show ?case
    by (simp add: v)
qed

lemma max_loop_first_max:
  assumes "\<forall>x\<in>set (ys @ b # zs @ xs). f x = Some (g x)"
    and "\<forall>y\<in>set ys. g y < g b"
    and "\<forall>z\<in>set zs. g z \<le> g b"
  shows "\<exists>ys' m zs'. ys @ b # zs @ xs = ys' @ m # zs' \<and> max_loop f b xs = Inr m \<and>
           (\<forall>y\<in>set ys'. g y < g m) \<and> (\<forall>z\<in>set zs'. g z \<le> g m)"
  using assms
proof (induction xs arbitrary: b ys zs)
  case Nil
  then show ?case by auto
next
  case (Cons x xs)
  have fx: "f x = Some (g x)" and fb: "f b = Some (g b)"
    using Cons.prems(1) by auto
  show ?case
  proof (cases "g b < g x")
    case True
    have "\<exists>ys' m zs'. (ys @ b # zs) @ x # [] @ xs = ys' @ m # zs' \<and> max_loop f x xs = Inr m \<and>
           (\<forall>y\<in>set ys'. g y < g m) \<and> (\<forall>z\<in>set zs'. g z \<le> g m)"
    proof (rule Cons.IH)
      show "\<forall>a\<in>set ((ys @ b # zs) @ x # [] @ xs). f a = Some (g a)"
        using Cons.prems(1) by auto
      show "\<forall>y\<in>set (ys @ b # zs). g y < g x"
        using Cons.prems(2,3) True by fastforce
      show "\<forall>z\<in>set []. g z \<le> g x" by simp
    qed
    then show ?thesis
      using True by (simp add: fx fb)
  next
    case False
    have "\<exists>ys' m zs'. ys @ b # (zs @ [x]) @ xs = ys' @ m # zs' \<and> max_loop f b xs = Inr m \<and>
           (\<forall>y\<in>set ys'. g y < g m) \<and> (\<forall>z\<in>set zs'. g z \<le> g m)"
    proof (rule Cons.IH)
      show "\<forall>a\<in>set (ys @ b # (zs @ [x]) @ xs). f a = Some (g a)"
        using Cons.prems(1) by auto
      show "\<forall>y\<in>set ys. g y < g b"
        using Cons.prems(2) .
      show "\<forall>z\<in>set (zs @ [x]). g z \<le> g b"
        using Cons.prems(3) False by auto
    qed
    then show ?thesis
      using False by (simp add: fx fb)
  qed
qed

lemma py_max_dict_returns:
  assumes "d \<noteq> []"
  shows "\<exists>k. py_max (dict_get d) (map fst d) = Inr k"
proof -
  obtain p rest where d: "d = p # rest"
    using assms by (cases d) auto
  have "\<forall>x\<in>set (fst p # map fst rest). \<exists>v. dict_get d x = Some v"
  proof
    fix x assume "x \<in> set (fst p # map fst rest)"
    then have "x \<in> fst ` set d" by (simp add: d)
    then have "map_of d x \<noteq> None" by (simp add: map_of_eq_None_iff)
    then show "\<exists>v. dict_get d x = Some v" by (simp add: dict_get_def)
  qed
  then have "\<exists>m. max_loop (dict_get d) (fst p) (map fst rest) = Inr m"
    by (rule max_loop_returns)
  then show ?thesis
    by (simp add: py_max_def d)
qed

lemma py_max_dict_first_max:
  assumes ne: "d \<noteq> []" and dist: "distinct (map fst d)"
  shows "\<exists>before k v after. d = before @ (k, v) # after \<and>
           py_max (dict_get d) (map fst d) = Inr k \<and>
           (\<forall>(k', v')\<in>set before. v' < v) \<and> (\<forall>(k', v')\<in>set after. v' \<le> v)"
proof -
  define g where "g = (\<lambda>k. the (map_of d k))"
  have val: "g k = v" if "(k, v) \<in> set d" for k v
    using that dist by (simp add: g_def)
  obtain p rest where d: "d = p # rest"
    using ne by (cases d) auto
  have "\<exists>ys' m zs'. [] @ fst p # [] @ map fst rest = ys' @ m # zs' \<and>
          max_loop (dict_get d) (fst p) (map fst rest) = Inr m \<and>
          (\<forall>y\<in>set ys'. g y < g m) \<and> (\<forall>z\<in>set zs'. g z \<le> g m)"
  proof (rule max_loop_first_max)
    show "\<forall>x\<in>set ([] @ fst p # [] @ map fst rest). dict_get d x = Some (g x)"
    proof
      fix x assume "x \<in> set ([] @ fst p # [] @ map fst rest)"
      then have "x \<in> fst ` set d" by (simp add: d)
      then obtain v where "(x, v) \<in> set d" by force
      then show "dict_get d x = Some (g x)"
        using dist val by (simp add: dict_get_def)
    qed
  qed simp_all
  then obtain ks m ks' where keys: "map fst d = ks @ m # ks'"
    and mx: "max_loop (dict_get d) (fst p) (map fst rest) = Inr m"
    and lt: "\<forall>y\<in>set ks. g y < g m" and le: "\<forall>z\<in>set ks'. g z \<le> g m"
    by (auto simp: d)
  from keys obtain before q after where split: "d = before @ q # after"
    and b: "map fst before = ks" and q: "fst q = m" and a: "map fst after = ks'"
    by (auto simp: map_eq_append_conv map_eq_Cons_conv)
  obtain k v where kv: "q = (k, v)" by (cases q)
  have gm: "g m = v"
    using val [of k v] q kv split by simp
  have "\<forall>(k', v')\<in>set before. v' < v"
  proof (clarify)
    fix k' v' assume in_b: "(k', v') \<in> set before"
    then have "g k' = v'" using val [of k' v'] split by simp
    moreover have "k' \<in> set ks" using in_b b by force
    ultimately show "v' < v" using lt gm by auto
  qed
  moreover have "\<forall>(k', v')\<in>set after. v' \<le> v"
  proof (clarify)
    fix k' v' assume in_a: "(k', v') \<in> set after"
    then have "g k' = v'" using val [of k' v'] split by simp
    moreover have "k' \<in> set ks'" using in_a a by force
    ultimately show "v' \<le> v" using le gm by auto
  qed
  moreover have "py_max (dict_get d) (map fst d) = Inr k"
    using mx q kv by (simp add: py_max_def d)
  ultimately show ?thesis
    using split kv by blast
qed

section \<open>The two reports\<close>

lemma vader_report_dict:
  "\<exists>r. vader_report L (VDict d) = Inr r \<and> r \<noteq> []"
proof (cases "d = []")
  case True
  then show ?thesis by (simp add: vader_report_def truthy_def)
next
  case False
  then obtain k where "py_max (dict_get d) (map fst d) = Inr k"
    using py_max_dict_returns by blast
  then show ?thesis
    using False by (simp add: vader_report_def truthy_def overall_sentiment_def)
qed

lemma vader_report_tuple: "vader_report L (VTuple m) = Inl AttributeError"
  by (simp add: vader_report_def truthy_def overall_sentiment_def)

lemma textblob_report_returns:
  "\<exists>r. textblob_report L (fst (analyze_sentiment_textblob L t))
          (snd (analyze_sentiment_textblob L t)) = Inr r \<and> r \<noteq> []"
  by (cases "textblob_sentiment L t")
    (auto simp: textblob_report_def analyze_sentiment_textblob_def)

section \<open>The three ways through \<open>perform_analysis\<close>\<close>

lemma perform_analysis_no_text:
  "analysis_text s = [] \<Longrightarrow>
   perform_analysis L s =
     \<lparr>post = s,
      effects = [Warning ''Input Error'' ''Please enter some text or upload a file to analyze.''],
      raised = None\<rparr>"
  by (simp add: perform_analysis_def)

lemma perform_analysis_vader_raises:
  assumes "analysis_text s \<noteq> []" and "polarity_scores L (analysis_text s) = Inl m"
  shows "perform_analysis L s =
           \<lparr>post = s\<lparr>vader_scores := VTuple m\<rparr>, effects = [], raised = Some AttributeError\<rparr>"
  using assms
  by (simp add: perform_analysis_def Let_def analyze_sentiment_vader_def vader_report_tuple)

lemma perform_analysis_vader_returns:
  assumes "analysis_text s \<noteq> []" and "polarity_scores L (analysis_text s) = Inr d"
    and "vader_report L (VDict d) = Inr vt"
    and "textblob_report L (fst (analyze_sentiment_textblob L (analysis_text s)))
           (snd (analyze_sentiment_textblob L (analysis_text s))) = Inr tt"
  shows "perform_analysis L s =
           \<lparr>post = s\<lparr>vader_scores := VDict d,
                     polarity := fst (analyze_sentiment_textblob L (analysis_text s)),
                     subjectivity := snd (analyze_sentiment_textblob L (analysis_text s)),
                     results := vt @ tt, result_label := vt @ tt,
                     chart := fst (plot L (chart s) (VDict d)
                                (fst (analyze_sentiment_textblob L (analysis_text s)))
                                (snd (analyze_sentiment_textblob L (analysis_text s))))\<rparr>,
            effects = [],
            raised = snd (plot L (chart s) (VDict d)
                       (fst (analyze_sentiment_textblob L (analysis_text s)))
                       (snd (analyze_sentiment_textblob L (analysis_text s))))\<rparr>"
  using assms
  by (simp add: perform_analysis_def Let_def analyze_sentiment_vader_def)


lemma plot_raised_ignores_chart: "snd (plot L old v pol subj) = snd (plot L old' v pol subj)"
  by (simp add: plot_def Let_def split: sum.splits option.splits)

lemma plot_chart_again:
  "fst (plot L (fst (plot L old v pol subj)) v pol subj) = fst (plot L old v pol subj)"
  by (simp add: plot_def Let_def split: sum.splits option.splits)

lemma typed_good_text: "analysis_text typed_good = ''good''"
  by (simp add: analysis_text_def typed_good_def init_def strip_def py_isspace_def)

text \<open>With the keys in the order \<open>pos\<close>, \<open>neu\<close>, \<open>neg\<close>, \<open>compound\<close>: the first of the
  three sentiment keys with the largest score, unless the compound score is above all
  three.\<close>

lemma overall_sentiment_claimed_order:
  "overall_sentiment (VDict [(''pos'', a), (''neu'', b), (''neg'', c), (''compound'', e)]) =
     Inr (if a < e \<and> b < e \<and> c < e then ''compound''
          else if b \<le> a \<and> c \<le> a then ''pos''
          else if c \<le> b then ''neu'' else ''neg'')"
  by (auto simp: overall_sentiment_def py_max_def dict_get_def)


section \<open>Running the analysis twice\<close>

lemma analysis_text_ignores_results:
  "analysis_text (s\<lparr>vader_scores := v\<rparr>) = analysis_text s"
  "analysis_text (s\<lparr>vader_scores := v, polarity := pol, subjectivity := subj,
                    results := r, result_label := l, chart := c\<rparr>) = analysis_text s"
  by (simp_all add: analysis_text_def)

lemma perform_analysis_cases:
  obtains (no_text) "analysis_text s = []"
  | (raises) m where "analysis_text s \<noteq> []" "polarity_scores L (analysis_text s) = Inl m"
  | (returns) d vt tt where "analysis_text s \<noteq> []"
      "polarity_scores L (analysis_text s) = Inr d"
      "vader_report L (VDict d) = Inr vt"
      "textblob_report L (fst (analyze_sentiment_textblob L (analysis_text s)))
         (snd (analyze_sentiment_textblob L (analysis_text s))) = Inr tt"
proof (cases "analysis_text s = []")
  case True
  then show ?thesis by (rule no_text)
next
  case False
  show ?thesis
  proof (cases "polarity_scores L (analysis_text s)")
    case (Inl m)
    with False show ?thesis by (rule raises)
  next
    case (Inr d)
    obtain vt where vt: "vader_report L (VDict d) = Inr vt"
      using vader_report_dict by blast
    obtain tt where tt: "textblob_report L (fst (analyze_sentiment_textblob L (analysis_text s)))
         (snd (analyze_sentiment_textblob L (analysis_text s))) = Inr tt"
      using textblob_report_returns by blast
    from False Inr vt tt show ?thesis by (rule returns)
  qed
qed

lemma perform_analysis_twice:
  "perform_analysis L (post (perform_analysis L s)) = perform_analysis L s"
proof (cases rule: perform_analysis_cases [where s = s and L = L])
  case no_text
  then show ?thesis by (simp add: perform_analysis_no_text)
next
  case (raises m)
  have "perform_analysis L (s\<lparr>vader_scores := VTuple m\<rparr>) =
          \<lparr>post = s\<lparr>vader_scores := VTuple m\<rparr>\<lparr>vader_scores := VTuple m\<rparr>,
           effects = [], raised = Some AttributeError\<rparr>"
    using raises by (intro perform_analysis_vader_raises) (simp_all add: analysis_text_ignores_results)
  then show ?thesis
    by (simp add: perform_analysis_vader_raises [OF raises])
next
  case (returns d vt tt)
  let ?t = "analysis_text s"
  let ?pol = "fst (analyze_sentiment_textblob L ?t)"
  let ?subj = "snd (analyze_sentiment_textblob L ?t)"
  let ?s' = "s\<lparr>vader_scores := VDict d, polarity := ?pol, subjectivity := ?subj,
               results := vt @ tt, result_label := vt @ tt,
               chart := fst (plot L (chart s) (VDict d) ?pol ?subj)\<rparr>"
  have first: "perform_analysis L s =
      \<lparr>post = ?s', effects = [], raised = snd (plot L (chart s) (VDict d) ?pol ?subj)\<rparr>"
    by (rule perform_analysis_vader_returns [OF returns])
  have t': "analysis_text ?s' = ?t"
    by (rule analysis_text_ignores_results)
  have second: "perform_analysis L ?s' =
      \<lparr>post = ?s'\<lparr>vader_scores := VDict d, polarity := ?pol, subjectivity := ?subj,
               results := vt @ tt, result_label := vt @ tt,
               chart := fst (plot L (chart ?s') (VDict d) ?pol ?subj)\<rparr>,
       effects = [], raised = snd (plot L (chart ?s') (VDict d) ?pol ?subj)\<rparr>"
    by (rule perform_analysis_vader_returns [of ?s' L d vt tt, unfolded t']) (rule returns)+
  have "perform_analysis L ?s' =
      \<lparr>post = ?s', effects = [], raised = snd (plot L (chart s) (VDict d) ?pol ?subj)\<rparr>"
    unfolding second
    using plot_raised_ignores_chart [of L "chart ?s'" "VDict d" ?pol ?subj "chart s"]
    by (simp add: plot_chart_again)
  then show ?thesis
    by (simp add: first)
qed

section \<open>Claims about the file extractor\<close>

text \<open>C4: when the extraction of a \<open>txt\<close>, \<open>csv\<close> or \<open>pdf\<close> file fails (the text
  file cannot be read, the CSV cannot be parsed, the PDF cannot be opened, or a page of the
  PDF cannot be read after the pages before it were), \<open>process_file\<close> raises that error
  and returns no text, also not the text of the pages already read; \<open>upload_file\<close> passes
  the error on and leaves the window as it was.\<close>

theorem extraction_failure_raises:
  assumes "file_type = ''txt'' \<and> read_text F p = Inl m
         \<or> file_type = ''csv'' \<and> read_csv F p = Inl m
         \<or> file_type = ''pdf'' \<and> pdf_open F p = Inl m
         \<or> file_type = ''pdf'' \<and>
            (\<exists>doc k. pdf_open F p = Inr doc \<and> k < page_count F doc \<and>
                     page_text F doc k = Inl m \<and>
                     (\<forall>j<k. \<exists>t. page_text F doc j = Inr t))"
  shows "process_file F p file_type = Inl (Raised m) \<and>
         (p \<noteq> [] \<and> file_type_of p = file_type \<longrightarrow>
            upload_file F p s = \<lparr>post = s, effects = [], raised = Some (Raised m)\<rparr>)"
proof -
  have pf: "process_file F p file_type = Inl (Raised m)"
    using assms
  proof (elim disjE conjE exE)
    fix doc k
    assume ft: "file_type = ''pdf''" and op: "pdf_open F p = Inr doc"
      and k: "k < page_count F doc" and bad: "page_text F doc k = Inl m"
      and ok: "\<forall>j<k. \<exists>t. page_text F doc j = Inr t"
    have "pdf_pages F doc ([0 ..< k] @ k # [Suc k ..< page_count F doc]) '''' = Inl (Raised m)"
      using bad ok by (intro pdf_pages_fails_at) auto
    then have "pdf_pages F doc [0 ..< page_count F doc] '''' = Inl (Raised m)"
      using upt_split_at [OF k] by simp
    then show ?thesis
      by (simp add: process_file_def ft op)
  qed (simp_all add: process_file_def)
  then show ?thesis
    by (simp add: upload_file_def)
qed

text \<open>A PDF of two pages whose second page cannot be read.\<close>

theorem extraction_failure_raises_witness:
  "pdf_open broken_pdf ''report.pdf'' = Inr 2 \<and> 1 < page_count broken_pdf 2 \<and>
   page_text broken_pdf 2 0 = Inr ''first page'' \<and>
   page_text broken_pdf 2 1 = Inl ''cannot read page'' \<and>
   file_type_of ''report.pdf'' = ''pdf'' \<and>
   process_file broken_pdf ''report.pdf'' ''pdf'' = Inl (Raised ''cannot read page'') \<and>
   upload_file broken_pdf ''report.pdf'' typed_good =
     \<lparr>post = typed_good, effects = [], raised = Some (Raised ''cannot read page'')\<rparr>"
proof -
  have facts: "pdf_open broken_pdf ''report.pdf'' = Inr 2" "1 < page_count broken_pdf 2"
    "page_text broken_pdf 2 0 = Inr ''first page''"
    "page_text broken_pdf 2 1 = Inl ''cannot read page''"
    by (simp_all add: broken_pdf_def page_text_def)
  have ft: "file_type_of ''report.pdf'' = ''pdf''"
    by (simp add: file_type_of_def)
  have early: "\<forall>j<1. \<exists>t. page_text broken_pdf 2 j = Inr t"
    using facts(3) by simp
  have hyp: "''pdf'' = ''txt'' \<and> read_text broken_pdf ''report.pdf'' = Inl ''cannot read page''
         \<or> ''pdf'' = ''csv'' \<and> read_csv broken_pdf ''report.pdf'' = Inl ''cannot read page''
         \<or> ''pdf'' = ''pdf'' \<and> pdf_open broken_pdf ''report.pdf'' = Inl ''cannot read page''
         \<or> ''pdf'' = ''pdf'' \<and>
            (\<exists>doc k. pdf_open broken_pdf ''report.pdf'' = Inr doc \<and> k < page_count broken_pdf doc \<and>
                     page_text broken_pdf doc k = Inl ''cannot read page'' \<and>
                     (\<forall>j<k. \<exists>t. page_text broken_pdf doc j = Inr t))"
    using facts early by blast
  show ?thesis
    using extraction_failure_raises [OF hyp, of typed_good] facts ft by simp
qed

text \<open>C8: for a declared type other than \<open>txt\<close>, \<open>csv\<close> and \<open>pdf\<close>, \<open>process_file\<close>
  returns the empty string whatever the file system would answer, so without reading and
  without an error; \<open>upload_file\<close> then stores the empty string.\<close>

theorem unknown_type_gives_empty:
  assumes "file_type \<notin> {''txt'', ''csv'', ''pdf''}"
  shows "process_file F p file_type = Inr [] \<and>
         (p \<noteq> [] \<and> file_type_of p = file_type \<longrightarrow>
            upload_file F p s =
              \<lparr>post = s\<lparr>file_content := [], text_entry := []\<rparr>, effects = [], raised = None\<rparr>)"
  using assms by (simp add: process_file_def upload_file_def)

text \<open>An upper-case extension, on a file system where every read fails.\<close>

theorem unknown_type_gives_empty_witness:
  "''TXT'' \<notin> {''txt'', ''csv'', ''pdf''} \<and> file_type_of ''notes.TXT'' = ''TXT'' \<and>
   process_file broken_pdf ''notes.TXT'' ''TXT'' = Inr [] \<and>
   upload_file broken_pdf ''notes.TXT'' typed_good =
     \<lparr>post = typed_good\<lparr>file_content := [], text_entry := []\<rparr>, effects = [], raised = None\<rparr>"
proof -
  have h: "''TXT'' \<notin> {''txt'', ''csv'', ''pdf''}" by simp
  have ft: "file_type_of ''notes.TXT'' = ''TXT''" by (simp add: file_type_of_def)
  show ?thesis
    using unknown_type_gives_empty [OF h, of broken_pdf "''notes.TXT''" typed_good] h ft
    by simp
qed

section \<open>Claims about saving\<close>

text \<open>C5: with an empty stored results string, \<open>save_results\<close> shows the \<open>No Results\<close>
  warning and nothing else: no file is written, whatever path the dialog would give, and
  the window is unchanged.\<close>

theorem save_without_results_rejected:
  assumes "results s = []"
  shows "save_results write_file chosen s =
           \<lparr>post = s,
            effects = [Warning ''No Results'' ''No results to save. Perform analysis first.''],
            raised = None\<rparr>"
  using assms by (simp add: save_results_def)

text \<open>The window right after start-up.\<close>

theorem save_without_results_rejected_witness:
  "results init = [] \<and>
   save_results (\<lambda>path contents. None) ''out.txt'' init =
     \<lparr>post = init,
      effects = [Warning ''No Results'' ''No results to save. Perform analysis first.''],
      raised = None\<rparr>"
proof -
  have h: "results init = []" by (simp add: init_def)
  show ?thesis
    using save_without_results_rejected [OF h, of "\<lambda>path contents. None" "''out.txt''"] h
    by simp
qed

section \<open>Claims about the analysis\<close>

text \<open>C9: when the stripped text of the entry and the stored file content are both empty,
  \<open>perform_analysis\<close> shows the \<open>Input Error\<close> warning and returns with every field of
  the window as it was.\<close>

theorem empty_input_changes_nothing:
  assumes "strip (text_entry s) = []" and "file_content s = []"
  shows "perform_analysis L s =
           \<lparr>post = s,
            effects = [Warning ''Input Error''
                         ''Please enter some text or upload a file to analyze.''],
            raised = None\<rparr>"
  using assms by (simp add: perform_analysis_no_text analysis_text_def)

text \<open>An entry holding two spaces.\<close>

theorem empty_input_changes_nothing_witness:
  "strip (text_entry (init\<lparr>text_entry := ''  ''\<rparr>)) = [] \<and>
   file_content (init\<lparr>text_entry := ''  ''\<rparr>) = [] \<and>
   perform_analysis good_libs (init\<lparr>text_entry := ''  ''\<rparr>) =
     \<lparr>post = init\<lparr>text_entry := ''  ''\<rparr>,
      effects = [Warning ''Input Error''
                   ''Please enter some text or upload a file to analyze.''],
      raised = None\<rparr>"
proof -
  have h1: "strip (text_entry (init\<lparr>text_entry := ''  ''\<rparr>)) = []"
    by (simp add: strip_def py_isspace_def)
  have h2: "file_content (init\<lparr>text_entry := ''  ''\<rparr>) = []"
    by (simp add: init_def)
  show ?thesis
    using empty_input_changes_nothing [OF h1 h2, of good_libs] h1 h2 by simp
qed

text \<open>C1, what the code does: line 118 takes the maximum over every key of the scores
  dict. Whenever the compound score is strictly above the scores of the other keys,
  whatever the order of the keys, the overall sentiment that \<open>perform_analysis\<close> reports
  and stores is \<open>compound\<close>, which is not one of \<open>pos\<close>, \<open>neu\<close>, \<open>neg\<close>.\<close>

theorem compound_reported_as_overall_sentiment:
  assumes "analysis_text s \<noteq> []"
    and "polarity_scores L (analysis_text s) = Inr d"
    and "distinct (map fst d)"
    and "(''compound'', e) \<in> set d"
    and "\<forall>(k, v)\<in>set d. k = ''compound'' \<or> v < e"
  shows "overall_sentiment (analyze_sentiment_vader L (analysis_text s)) = Inr ''compound'' \<and>
         ''compound'' \<notin> {''pos'', ''neu'', ''neg''} \<and>
         (\<exists>rest. results (post (perform_analysis L s)) =
            ''Overall Sentiment (VADER): compound'' @ nl @
            ''Scores: '' @ format_scores L d @ nl @ rest)"
proof -
  have ne: "d \<noteq> []"
    using assms(4) by auto
  obtain before k v after where split: "d = before @ (k, v) # after"
    and mx: "py_max (dict_get d) (map fst d) = Inr k"
    and lt: "\<forall>(k', v')\<in>set before. v' < v" and le: "\<forall>(k', v')\<in>set after. v' \<le> v"
    using py_max_dict_first_max [OF ne assms(3)] by blast
  have k: "k = ''compound''"
  proof (rule ccontr)
    assume other: "k \<noteq> ''compound''"
    have "(k, v) \<in> set d" using split by simp
    then have small: "v < e" using assms(5) other by auto
    have "(''compound'', e) \<in> set before \<or> (''compound'', e) \<in> set after"
      using assms(4) split other by auto
    then show False
      using lt le small by auto
  qed
  have v: "analyze_sentiment_vader L (analysis_text s) = VDict d"
    using assms(2) by (simp add: analyze_sentiment_vader_def)
  have ov: "overall_sentiment (analyze_sentiment_vader L (analysis_text s)) = Inr ''compound''"
    using mx k by (simp add: v overall_sentiment_def)
  have vt: "vader_report L (VDict d) =
      Inr (''Overall Sentiment (VADER): compound'' @ nl @ ''Scores: '' @ format_scores L d @ nl)"
    using ne mx k by (simp add: vader_report_def truthy_def overall_sentiment_def show_vader_def)
  obtain tt where tt: "textblob_report L (fst (analyze_sentiment_textblob L (analysis_text s)))
         (snd (analyze_sentiment_textblob L (analysis_text s))) = Inr tt"
    using textblob_report_returns by blast
  have "results (post (perform_analysis L s)) =
      ''Overall Sentiment (VADER): compound'' @ nl @ ''Scores: '' @ format_scores L d @ nl @ tt"
    by (simp add: perform_analysis_vader_returns [OF assms(1,2) vt tt])
  then show ?thesis
    using ov by simp
qed

text \<open>Scores with \<open>pos\<close> and \<open>neu\<close> tied at 0.5 and a compound score of 0.8.\<close>

theorem compound_reported_as_overall_sentiment_witness:
  "analysis_text typed_good \<noteq> [] \<and>
   polarity_scores compound_libs (analysis_text typed_good) = Inr compound_scores \<and>
   compound_scores = [(''pos'', 0.5), (''neu'', 0.5), (''neg'', 0), (''compound'', 0.8)] \<and>
   overall_sentiment (analyze_sentiment_vader compound_libs (analysis_text typed_good)) =
     Inr ''compound'' \<and>
   (\<exists>rest. results (post (perform_analysis compound_libs typed_good)) =
      ''Overall Sentiment (VADER): compound'' @ nl @
      ''Scores: '' @ format_scores compound_libs compound_scores @ nl @ rest)"
proof -
  have h1: "analysis_text typed_good \<noteq> []"
    by (simp add: typed_good_text)
  have h2: "polarity_scores compound_libs (analysis_text typed_good) = Inr compound_scores"
    by (simp add: compound_libs_def good_libs_def)
  have h3: "distinct (map fst compound_scores)"
    and h4: "(''compound'', 0.8) \<in> set compound_scores"
    and h5: "\<forall>(k, v)\<in>set compound_scores. k = ''compound'' \<or> v < 0.8"
    by (simp_all add: compound_scores_def)
  show ?thesis
    using compound_reported_as_overall_sentiment [OF h1 h2 h3 h4 h5] h1 h2
    by (simp add: compound_scores_def)
qed

text \<open>C6: when the analysis reaches the TextBlob scorer and it succeeds with polarity
  \<open>p\<close>, the stored results carry, after the VADER part, the line
  \<open>Overall Sentiment (TextBlob):\<close> with a label that is \<open>Positive\<close> exactly when \<open>p > 0\<close>,
  \<open>Negative\<close> exactly when \<open>p < 0\<close> and \<open>Neutral\<close> exactly when \<open>p = 0\<close>.\<close>

theorem textblob_label_follows_sign:
  assumes "analysis_text s \<noteq> []"
    and "polarity_scores L (analysis_text s) = Inr d"
    and "textblob_sentiment L (analysis_text s) = Inr (p, sb)"
  shows "\<exists>vader_text.
           vader_report L (VDict d) = Inr vader_text \<and>
           results (post (perform_analysis L s)) =
             vader_text @ ''Overall Sentiment (TextBlob): '' @ textblob_label p @ nl @
             ''Polarity: '' @ format_4f L p @ nl @ ''Subjectivity: '' @ format_4f L sb \<and>
           (textblob_label p = ''Positive'' \<longleftrightarrow> 0 < p) \<and>
           (textblob_label p = ''Negative'' \<longleftrightarrow> p < 0) \<and>
           (textblob_label p = ''Neutral'' \<longleftrightarrow> p = 0)"
proof -
  obtain vt where vt: "vader_report L (VDict d) = Inr vt"
    using vader_report_dict by blast
  have tb: "analyze_sentiment_textblob L (analysis_text s) = (Some p, PyFloat sb)"
    using assms(3) by (simp add: analyze_sentiment_textblob_def)
  have tt: "textblob_report L (fst (analyze_sentiment_textblob L (analysis_text s)))
              (snd (analyze_sentiment_textblob L (analysis_text s))) =
            Inr (''Overall Sentiment (TextBlob): '' @ textblob_label p @ nl @
                 ''Polarity: '' @ format_4f L p @ nl @ ''Subjectivity: '' @ format_4f L sb)"
    by (simp add: tb textblob_report_def)
  have "results (post (perform_analysis L s)) =
          vt @ ''Overall Sentiment (TextBlob): '' @ textblob_label p @ nl @
          ''Polarity: '' @ format_4f L p @ nl @ ''Subjectivity: '' @ format_4f L sb"
    by (simp add: perform_analysis_vader_returns [OF assms(1,2) vt tt])
  moreover have "(textblob_label p = ''Positive'' \<longleftrightarrow> 0 < p) \<and>
           (textblob_label p = ''Negative'' \<longleftrightarrow> p < 0) \<and>
           (textblob_label p = ''Neutral'' \<longleftrightarrow> p = 0)"
    by (simp add: textblob_label_def)
  ultimately show ?thesis
    using vt by blast
qed

text \<open>The word \<open>good\<close>, of polarity 0.7.\<close>

theorem textblob_label_follows_sign_witness:
  "analysis_text typed_good \<noteq> [] \<and>
   polarity_scores good_libs (analysis_text typed_good) = Inr good_scores \<and>
   textblob_sentiment good_libs (analysis_text typed_good) = Inr (0.7, 0.6) \<and>
   textblob_label 0.7 = ''Positive'' \<and>
   (\<exists>vader_text.
      vader_report good_libs (VDict good_scores) = Inr vader_text \<and>
      results (post (perform_analysis good_libs typed_good)) =
        vader_text @ ''Overall Sentiment (TextBlob): Positive'' @ nl @
        ''Polarity: 0.7000'' @ nl @ ''Subjectivity: 0.6000'')"
proof -
  have h1: "analysis_text typed_good \<noteq> []"
    by (simp add: typed_good_text)
  have h2: "polarity_scores good_libs (analysis_text typed_good) = Inr good_scores"
    by (simp add: good_libs_def)
  have h3: "textblob_sentiment good_libs (analysis_text typed_good) = Inr (0.7, 0.6)"
    by (simp add: good_libs_def)
  have fmt: "format_4f good_libs 0.7 = ''0.7000''" "format_4f good_libs 0.6 = ''0.6000''"
    by (simp_all add: good_libs_def)
  have lbl: "textblob_label 0.7 = ''Positive''"
    by (simp add: textblob_label_def)
  show ?thesis
    using textblob_label_follows_sign [OF h1 h2 h3] h1 h2 h3 fmt lbl by simp
qed






text \<open>C2, what the code does when the VADER scorer raises: \<open>analyze_sentiment_vader\<close>
  returns the pair \<open>(None, str(e))\<close>, which is truthy, so line 118 asks a tuple for its
  attribute \<open>get\<close> and \<open>perform_analysis\<close> leaves with \<open>AttributeError\<close>. The results,
  the label, the polarity and the subjectivity keep their old values: no error text is
  stored and the TextBlob outcome is not reported.\<close>

theorem vader_failure_escapes:
  assumes "analysis_text s \<noteq> []"
    and "polarity_scores L (analysis_text s) = Inl m"
  shows "raised (perform_analysis L s) = Some AttributeError \<and>
         post (perform_analysis L s) = s\<lparr>vader_scores := VTuple m\<rparr> \<and>
         results (post (perform_analysis L s)) = results s \<and>
         result_label (post (perform_analysis L s)) = result_label s \<and>
         polarity (post (perform_analysis L s)) = polarity s \<and>
         subjectivity (post (perform_analysis L s)) = subjectivity s"
  by (simp add: perform_analysis_vader_raises [OF assms])

text \<open>VADER raises on a text that TextBlob scores.\<close>

theorem vader_failure_escapes_witness:
  "analysis_text typed_good \<noteq> [] \<and>
   polarity_scores vader_down (analysis_text typed_good) = Inl ''list index out of range'' \<and>
   textblob_sentiment vader_down (analysis_text typed_good) = Inr (0.7, 0.6) \<and>
   raised (perform_analysis vader_down typed_good) = Some AttributeError \<and>
   results (post (perform_analysis vader_down typed_good)) = [] \<and>
   polarity (post (perform_analysis vader_down typed_good)) = None"
proof -
  have h1: "analysis_text typed_good \<noteq> []"
    by (simp add: typed_good_text)
  have h2: "polarity_scores vader_down (analysis_text typed_good) = Inl ''list index out of range''"
    by (simp add: vader_down_def good_libs_def)
  have h3: "textblob_sentiment vader_down (analysis_text typed_good) = Inr (0.7, 0.6)"
    by (simp add: vader_down_def good_libs_def)
  have st: "results typed_good = []" "polarity typed_good = None"
    by (simp_all add: typed_good_def init_def)
  show ?thesis
    using vader_failure_escapes [OF h1 h2] h1 h2 h3 st by simp
qed

text \<open>C10, what the code does when the VADER scorer raises on a non-empty input: the
  stored results stay empty, and the save that follows is rejected with the
  \<open>No Results\<close> warning.\<close>

theorem results_stay_empty_when_vader_raises:
  assumes "results s = []"
    and "analysis_text s \<noteq> []"
    and "polarity_scores L (analysis_text s) = Inl m"
  shows "results (post (perform_analysis L s)) = [] \<and>
         save_results write_file chosen (post (perform_analysis L s)) =
           \<lparr>post = post (perform_analysis L s),
            effects = [Warning ''No Results'' ''No results to save. Perform analysis first.''],
            raised = None\<rparr>"
  using assms(1) by (simp add: perform_analysis_vader_raises [OF assms(2,3)] save_results_def)

text \<open>The first analysis after start-up, with VADER raising.\<close>

theorem results_stay_empty_when_vader_raises_witness:
  "results typed_good = [] \<and> analysis_text typed_good \<noteq> [] \<and>
   polarity_scores vader_down (analysis_text typed_good) = Inl ''list index out of range'' \<and>
   results (post (perform_analysis vader_down typed_good)) = [] \<and>
   effects (save_results (\<lambda>path contents. None) ''out.txt''
             (post (perform_analysis vader_down typed_good))) =
     [Warning ''No Results'' ''No results to save. Perform analysis first.'']"
proof -
  have h0: "results typed_good = []"
    by (simp add: typed_good_def init_def)
  have h1: "analysis_text typed_good \<noteq> []"
    by (simp add: typed_good_text)
  have h2: "polarity_scores vader_down (analysis_text typed_good) = Inl ''list index out of range''"
    by (simp add: vader_down_def good_libs_def)
  show ?thesis
    using results_stay_empty_when_vader_raises
            [OF h0 h1 h2, of "\<lambda>path contents. None" "''out.txt''"] h0 h1 h2
    by simp
qed

end
